theory Spec2Isabelle
  imports Complex_Main "HOL-Library.Sublist"
begin

section \<open>Errors and remote objects\<close>

text \<open>
  The exceptions the two modules raise or let through. \<open>HadoopProvisionError\<close> and
  \<open>ValueError\<close> are raised by the source itself; \<open>IndexError\<close>, \<open>KeyError\<close> and
  \<open>TypeError\<close> are what Python raises for \<open>instances[0]\<close> on an empty list, for a
  missing dictionary key and for subscripting \<open>None\<close>; \<open>RemoteError\<close> stands for
  whatever exception a collaborator (the management endpoint client, the conductor, the
  job manager, the cluster operations, the proxy and trust utilities) lets escape.
\<close>

datatype error =
    HadoopProvisionError string
  | ValueError string
  | IndexError
  | KeyError string
  | TypeError
  | RemoteError string

text \<open>
  The object \<open>cmd.wait()\<close> returns: the completed command with its \<open>success\<close> flag,
  its \<open>children\<close> (\<open>None\<close> or a sequence of completed commands) and its
  \<open>resultMessage\<close>.
\<close>

datatype api_command =
  ApiCommand (success: bool) (children: "api_command list option") (resultMessage: string)

section \<open>cloudera\_utils.py: the command wrapper\<close>

text \<open>
  The inner loop of \<open>cloudera_cmd\<close>:
  \<^verbatim>\<open>for c in result.children:
      if not c.success:
          raise ex.HadoopProvisionError(c.resultMessage)\<close>
  \<open>Some e\<close> is the raise, \<open>None\<close> is the loop running to its end.
\<close>

fun children_loop :: "api_command list \<Rightarrow> error option" where
  "children_loop [] = None"
| "children_loop (c # cs) =
     (if \<not> success c then Some (HadoopProvisionError (resultMessage c))
      else children_loop cs)"

text \<open>
  The wrapper that \<open>cloudera_cmd\<close> puts around a generator \<open>f\<close>. Its argument is the
  sequence of results that \<open>cmd.wait()\<close> returns for the commands \<open>f\<close> yields, in the
  order they are yielded. The wrapper has no \<open>return\<close>: falling off the end of the outer
  loop is \<open>Inr ()\<close>.
\<close>

fun cloudera_cmd :: "api_command list \<Rightarrow> error + unit" where
  "cloudera_cmd [] = Inr ()"
| "cloudera_cmd (result # cmds) =
     (if \<not> success result then
        (case children result of
           Some cs \<Rightarrow>
             (case children_loop cs of
                Some e \<Rightarrow> Inl e
              | None \<Rightarrow> cloudera_cmd cmds)
         | None \<Rightarrow> Inl (HadoopProvisionError (resultMessage result)))
      else cloudera_cmd cmds)"

section \<open>cloudera\_utils.py: handles on the management endpoint\<close>

text \<open>
  The Sahara objects the module reads. A cluster carries the attributes the two modules
  use (\<open>id\<close>, \<open>name\<close>, \<open>status\<close>, \<open>is_transient\<close>, \<open>updated_at\<close>); \<open>updated_at\<close> is
  the timestamp string that \<open>timeutils.parse_isotime\<close> is given. An instance has its \<open>fqdn()\<close> and its node group, which knows its cluster
  and its \<open>node_processes\<close>.
\<close>

record cluster =
  cluster_id :: string
  cluster_name :: string
  status :: string
  is_transient :: bool
  updated_at :: string

record node_group =
  ng_cluster :: cluster
  node_processes :: "string list"

record instance_t =
  fqdn :: string
  node_group :: node_group

text \<open>
  Objects of the cm\_api client are handles, written as terms that record how they were
  obtained: \<open>ApiResource c\<close> is the client \<open>get_api_client\<close> opens to the manager of
  cluster \<open>c\<close> (the plugin utilities \<open>pu\<close> that find the manager are defined in a derived
  class), \<open>ApiCluster api n\<close> is \<open>api.get_cluster(n)\<close> and \<open>ApiService cm n\<close> is
  \<open>cm.get_service(n)\<close>. A host of the inventory has a \<open>hostname\<close> and a \<open>hostId\<close>.
\<close>

datatype api_resource = ApiResource cluster

datatype cm_cluster = ApiCluster api_resource string

datatype service = ApiService cm_cluster string

record host =
  hostname :: string
  hostId :: string

definition HDFS_SERVICE_NAME :: string where "HDFS_SERVICE_NAME = ''hdfs01''"
definition YARN_SERVICE_NAME :: string where "YARN_SERVICE_NAME = ''yarn01''"
definition OOZIE_SERVICE_NAME :: string where "OOZIE_SERVICE_NAME = ''oozie01''"
definition HIVE_SERVICE_NAME :: string where "HIVE_SERVICE_NAME = ''hive01''"
definition HUE_SERVICE_NAME :: string where "HUE_SERVICE_NAME = ''hue01''"
definition SPARK_SERVICE_NAME :: string where "SPARK_SERVICE_NAME = ''spark_on_yarn01''"
definition ZOOKEEPER_SERVICE_NAME :: string where "ZOOKEEPER_SERVICE_NAME = ''zookeeper01''"
definition HBASE_SERVICE_NAME :: string where "HBASE_SERVICE_NAME = ''hbase01''"

definition get_api_client :: "cluster \<Rightarrow> api_resource" where
  "get_api_client cluster = ApiResource cluster"

definition get_cloudera_cluster :: "cluster \<Rightarrow> cm_cluster" where
  "get_cloudera_cluster cluster =
     (let api = get_api_client cluster in ApiCluster api (cluster_name cluster))"

definition get_service :: "cm_cluster \<Rightarrow> string \<Rightarrow> service" where
  "get_service cm n = ApiService cm n"

text \<open>
  \<open>get_service_by_role(process, cluster=None, instance=None)\<close>. An argument left at
  \<open>None\<close> is \<open>None\<close> here, an object passed is \<open>Some\<close> of it (objects are truthy). The
  first \<open>if\<close>/\<open>elif\<close>/\<open>else\<close> picks the cluster, the chain of membership tests picks the
  service name; both \<open>raise ValueError\<close> are \<open>Inl\<close>.
\<close>

definition get_service_by_role ::
  "string \<Rightarrow> cluster option \<Rightarrow> instance_t option \<Rightarrow> error + service" where
  "get_service_by_role process cluster inst =
     (case (case cluster of
              Some c \<Rightarrow> Inr (get_cloudera_cluster c)
            | None \<Rightarrow>
                (case inst of
                   Some i \<Rightarrow> Inr (get_cloudera_cluster (ng_cluster (node_group i)))
                 | None \<Rightarrow> Inl (ValueError '''cluster' or 'instance' argument missed''))) of
        Inl e \<Rightarrow> Inl e
      | Inr cm_cluster \<Rightarrow>
          if process \<in> set [''NAMENODE'', ''DATANODE'', ''SECONDARYNAMENODE''] then
            Inr (get_service cm_cluster HDFS_SERVICE_NAME)
          else if process \<in> set [''RESOURCEMANAGER'', ''NODEMANAGER'', ''JOBHISTORY''] then
            Inr (get_service cm_cluster YARN_SERVICE_NAME)
          else if process \<in> set [''OOZIE_SERVER''] then
            Inr (get_service cm_cluster OOZIE_SERVICE_NAME)
          else if process \<in> set [''HIVESERVER2'', ''HIVEMETASTORE'', ''WEBHCAT''] then
            Inr (get_service cm_cluster HIVE_SERVICE_NAME)
          else if process \<in> set [''HUE_SERVER''] then
            Inr (get_service cm_cluster HUE_SERVICE_NAME)
          else if process \<in> set [''SPARK_YARN_HISTORY_SERVER''] then
            Inr (get_service cm_cluster SPARK_SERVICE_NAME)
          else if process \<in> set [''SERVER''] then
            Inr (get_service cm_cluster ZOOKEEPER_SERVICE_NAME)
          else if process \<in> set [''MASTER'', ''REGIONSERVER''] then
            Inr (get_service cm_cluster HBASE_SERVICE_NAME)
          else
            Inl (ValueError (''Process '' @ process @ '' is not supported by CDH plugin'')))"

text \<open>
  The routing table as the specification words it (process identifier, service name),
  and the router it describes: the named service of the resolved cluster for a process
  of the table, the "unsupported process" error for any other.
\<close>

definition service_table :: "(string \<times> string) list" where
  "service_table =
     [(''NAMENODE'', ''hdfs01''), (''DATANODE'', ''hdfs01''), (''SECONDARYNAMENODE'', ''hdfs01''),
      (''RESOURCEMANAGER'', ''yarn01''), (''NODEMANAGER'', ''yarn01''), (''JOBHISTORY'', ''yarn01''),
      (''OOZIE_SERVER'', ''oozie01''),
      (''HIVESERVER2'', ''hive01''), (''HIVEMETASTORE'', ''hive01''), (''WEBHCAT'', ''hive01''),
      (''HUE_SERVER'', ''hue01''),
      (''SPARK_YARN_HISTORY_SERVER'', ''spark_on_yarn01''),
      (''SERVER'', ''zookeeper01''),
      (''MASTER'', ''hbase01''), (''REGIONSERVER'', ''hbase01'')]"

definition unsupported :: "string \<Rightarrow> error" where
  "unsupported process =
     ValueError (''Process '' @ process @ '' is not supported by CDH plugin'')"

definition route :: "cm_cluster \<Rightarrow> string \<Rightarrow> error + service" where
  "route cm process =
     (case map_of service_table process of
        Some n \<Rightarrow> Inr (ApiService cm n)
      | None \<Rightarrow> Inl (unsupported process))"

section \<open>cloudera\_utils.py: calls that change the endpoint\<close>

text \<open>
  The calls of the module that change the management endpoint, and the endpoint itself:
  given the calls made so far and the next call, \<open>None\<close> when the call returns and
  \<open>Some e\<close> when it raises \<open>e\<close>. \<open>invoke\<close> makes one call: the call is recorded
  whether or not it raises.
\<close>

datatype call =
    RemoveHost cm_cluster string
  | DeleteHost api_resource string
  | Decommission service "string list"
  | DeleteRole service string

type_synonym endpoint = "call list \<Rightarrow> call \<Rightarrow> error option"

definition invoke :: "endpoint \<Rightarrow> call \<Rightarrow> call list \<Rightarrow> (error + unit) \<times> call list" where
  "invoke ep c tr = (case ep tr c of None \<Rightarrow> (Inr (), tr @ [c]) | Some e \<Rightarrow> (Inl e, tr @ [c]))"

text \<open>
  The loop of \<open>delete_instances\<close>. Nothing catches an exception of \<open>remove_host\<close> or
  \<open>delete_host\<close>: it leaves the loop and the function.
\<close>

fun hosts_loop ::
  "endpoint \<Rightarrow> api_resource \<Rightarrow> cm_cluster \<Rightarrow> string list \<Rightarrow> host list \<Rightarrow> call list
     \<Rightarrow> (error + unit) \<times> call list" where
  "hosts_loop ep api cm hostsnames_to_deleted [] tr = (Inr (), tr)"
| "hosts_loop ep api cm hostsnames_to_deleted (h # hosts) tr =
     (if hostname h \<in> set hostsnames_to_deleted then
        (case invoke ep (RemoveHost cm (hostId h)) tr of
           (Inl e, tr1) \<Rightarrow> (Inl e, tr1)
         | (Inr _, tr1) \<Rightarrow>
             (case invoke ep (DeleteHost api (hostId h)) tr1 of
                (Inl e, tr2) \<Rightarrow> (Inl e, tr2)
              | (Inr _, tr2) \<Rightarrow> hosts_loop ep api cm hostsnames_to_deleted hosts tr2))
      else hosts_loop ep api cm hostsnames_to_deleted hosts tr)"

text \<open>
  \<open>delete_instances(cluster, instances)\<close>; \<open>all_hosts\<close> is the inventory that
  \<open>api.get_all_hosts(view='full')\<close> returns. The result is the outcome and the calls made.
\<close>

definition delete_instances ::
  "endpoint \<Rightarrow> host list \<Rightarrow> cluster \<Rightarrow> instance_t list \<Rightarrow> (error + unit) \<times> call list" where
  "delete_instances ep all_hosts cluster instances =
     (let api = get_api_client cluster;
          cm = get_cloudera_cluster cluster;
          hosts = all_hosts;
          hostsnames_to_deleted = map fqdn instances
      in hosts_loop ep api cm hostsnames_to_deleted hosts [])"

text \<open>
  The loop of \<open>decommission_nodes\<close> over the role names.
\<close>

fun roles_loop ::
  "endpoint \<Rightarrow> service \<Rightarrow> string list \<Rightarrow> call list \<Rightarrow> (error + unit) \<times> call list" where
  "roles_loop ep svc [] tr = (Inr (), tr)"
| "roles_loop ep svc (role_name # role_names) tr =
     (case invoke ep (DeleteRole svc role_name) tr of
        (Inl e, tr1) \<Rightarrow> (Inl e, tr1)
      | (Inr _, tr1) \<Rightarrow> roles_loop ep svc role_names tr1)"

text \<open>
  \<open>decommission_nodes(cluster, process, role_names)\<close>. \<open>waited\<close> is the completed
  command that \<open>service.decommission(*role_names).wait()\<close> returns; the source drops that
  value, so it does not occur on the right-hand side. The function is not wrapped by
  \<open>cloudera_cmd\<close>.
\<close>

definition decommission_nodes ::
  "endpoint \<Rightarrow> api_command \<Rightarrow> cluster \<Rightarrow> string \<Rightarrow> string list
     \<Rightarrow> (error + unit) \<times> call list" where
  "decommission_nodes ep waited cluster process role_names =
     (case get_service_by_role process (Some cluster) None of
        Inl e \<Rightarrow> (Inl e, [])
      | Inr svc \<Rightarrow>
          (case invoke ep (Decommission svc role_names) [] of
             (Inl e, tr) \<Rightarrow> (Inl e, tr)
           | (Inr _, tr) \<Rightarrow> roles_loop ep svc role_names tr))"

text \<open>
  For stating what the loops do: \<open>run_calls\<close> makes the calls of a list one after the
  other and stops at the first that raises; \<open>removal_plan\<close> lists, for the hosts of the
  inventory whose hostname is among the given names, in inventory order, the removal
  from the cluster followed by the deletion of the host.
\<close>

fun run_calls :: "endpoint \<Rightarrow> call list \<Rightarrow> call list \<Rightarrow> (error + unit) \<times> call list" where
  "run_calls ep [] tr = (Inr (), tr)"
| "run_calls ep (c # cs) tr =
     (case invoke ep c tr of
        (Inl e, tr1) \<Rightarrow> (Inl e, tr1)
      | (Inr _, tr1) \<Rightarrow> run_calls ep cs tr1)"

definition removal_plan ::
  "api_resource \<Rightarrow> cm_cluster \<Rightarrow> string list \<Rightarrow> host list \<Rightarrow> call list" where
  "removal_plan api cm names hosts =
     concat (map (\<lambda>h. [RemoveHost cm (hostId h), DeleteHost api (hostId h)])
                 (filter (\<lambda>h. hostname h \<in> set names) hosts))"

section \<open>cloudera\_utils.py: waiting for the agents\<close>

text \<open>
  The test \<open>is_ok\<close> of \<open>await_agents\<close>: the loop over \<open>hostnames\<close> that stops at the first
  name missing from \<open>hostnames_to_manager\<close>.
\<close>

fun is_ok_loop :: "string list \<Rightarrow> string list \<Rightarrow> bool" where
  "is_ok_loop [] hostnames_to_manager = True"
| "is_ok_loop (hn # hostnames) hostnames_to_manager =
     (if hn \<notin> set hostnames_to_manager then False
      else is_ok_loop hostnames hostnames_to_manager)"

datatype agent_event = GetAllHosts api_resource | Sleep nat

text \<open>
  The \<open>while\<close> loop of \<open>await_agents\<close>, with its \<open>else\<close> clause. The clock and the
  endpoint are given by two sequences: \<open>elapsed k\<close> is the value of
  \<open>timeutils.delta_seconds(s_time, timeutils.utcnow())\<close> when the loop condition is
  evaluated for the \<open>k\<close>-th time (counting from 0), and \<open>inventory k\<close> is what the \<open>k\<close>-th
  \<open>api.get_all_hosts('full')\<close> returns. Nothing in the loop bounds the number of rounds:
  with a clock that stands still it runs forever, which is the value \<open>None\<close>.
\<close>

partial_function (option) await_loop ::
  "(nat \<Rightarrow> real) \<Rightarrow> (nat \<Rightarrow> host list) \<Rightarrow> api_resource \<Rightarrow> instance_t list \<Rightarrow> nat
     \<Rightarrow> agent_event list \<Rightarrow> ((error + unit) \<times> agent_event list) option" where
  "await_loop elapsed inventory api instances k evs =
     (if elapsed k < 300 then
        (if \<not> is_ok_loop (map fqdn instances) (map hostname (inventory k)) then
           await_loop elapsed inventory api instances (Suc k) (evs @ [GetAllHosts api, Sleep 5])
         else Some (Inr (), evs @ [GetAllHosts api]))
      else Some (Inl (HadoopProvisionError
                  ''Cloudera agents failed to connect to Cloudera Manager''), evs))"

text \<open>
  \<open>await_agents(instances)\<close>: \<open>instances[0]\<close> raises \<open>IndexError\<close> on an empty list.
\<close>

definition await_agents ::
  "(nat \<Rightarrow> real) \<Rightarrow> (nat \<Rightarrow> host list) \<Rightarrow> instance_t list
     \<Rightarrow> ((error + unit) \<times> agent_event list) option" where
  "await_agents elapsed inventory instances =
     (case instances of
        [] \<Rightarrow> Some (Inl IndexError, [])
      | i # _ \<Rightarrow>
          (let api = get_api_client (ng_cluster (node_group i))
           in await_loop elapsed inventory api instances 0 []))"

text \<open>
  For stating what \<open>await_agents\<close> does: an inventory has every instance registered
  when each fully-qualified name is the hostname of one of its hosts; \<open>polls api k\<close> are
  the events of \<open>k\<close> rounds that did not find them all, each a fetch followed by a sleep
  of five seconds; \<open>agents_failed\<close> is the error of the \<open>else\<close> clause.
\<close>

definition registered :: "instance_t list \<Rightarrow> host list \<Rightarrow> bool" where
  "registered instances hosts \<longleftrightarrow> set (map fqdn instances) \<subseteq> set (map hostname hosts)"

definition polls :: "api_resource \<Rightarrow> nat \<Rightarrow> agent_event list" where
  "polls api k = concat (replicate k [GetAllHosts api, Sleep 5])"

definition agents_failed :: error where
  "agents_failed = HadoopProvisionError ''Cloudera agents failed to connect to Cloudera Manager''"

section \<open>periodic.py: the three tasks\<close>

text \<open>
  The execution context of \<open>sahara.context\<close>: \<open>get_admin_context()\<close> returns the
  administrative one, and the current context of the thread is \<open>None\<close> or one of them.
  \<open>CONF\<close> has the two options that \<open>terminate_unneeded_clusters\<close> reads.
\<close>

datatype ctx = AdminContext | RequestContext string

definition get_admin_context :: ctx where
  "get_admin_context = AdminContext"

record conf =
  use_identity_api_v3 :: bool
  min_transient_cluster_active_time :: int

text \<open>
  A proxy-domain user has an \<open>id\<close> and a \<open>name\<close>; a job execution has its \<open>info\<close>,
  which is \<open>None\<close> or a dictionary.
\<close>

record user =
  user_id :: string
  user_name :: string

record job_execution =
  info :: "(string \<rightharpoonup> string) option"

text \<open>
  What the tasks do to their collaborators, in the order they do it. A call is recorded
  when it is made, whether it returns or raises. Log lines are not recorded.
\<close>

datatype action =
    UpdateJobStatuses
  | UseOsAdminAuthToken cluster
  | TerminateCluster string
  | ClusterUpdate cluster "(string \<times> string) list"
  | ProxyUserDelete string

text \<open>
  The state a task works on: the current context that \<open>context.set_ctx\<close> writes, and
  the actions taken so far.
\<close>

record world =
  current_ctx :: "ctx option"
  actions :: "action list"

definition set_ctx :: "ctx option \<Rightarrow> world \<Rightarrow> world" where
  "set_ctx new_ctx w = w\<lparr>current_ctx := new_ctx\<rparr>"

text \<open>
  The collaborators of the tasks, as the tasks see them. Every call into another module
  either returns or raises; a call that returns a value has the type \<open>error + value\<close>,
  a call made for its effect has the type \<open>error option\<close> (\<open>None\<close>: it returned).
  \<^item> \<open>stored_clusters\<close>: the clusters the conductor holds, or the exception with which
    its listing call fails;
  \<^item> \<open>job_execution_count cid\<close>:
    \<open>conductor.job_execution_count(ctx, end_time=None, cluster_id=cid)\<close>;
  \<^item> \<open>parse_isotime s\<close>: the time, in seconds, of
    \<open>timeutils.normalize_time(timeutils.parse_isotime(s))\<close>, or the exception
    \<open>parse_isotime\<close> raises for a string it cannot read;
  \<^item> \<open>utcnow c\<close>: the value \<open>timeutils.utcnow()\<close> returns in the round of the loop that
    examines cluster \<open>c\<close>, in seconds;
  \<^item> \<open>use_os_admin_auth_token c\<close>: \<open>trusts.use_os_admin_auth_token(c)\<close>;
  \<^item> \<open>terminate_cluster cid\<close>: \<open>ops.terminate_cluster(cid)\<close>;
  \<^item> \<open>cluster_update c values\<close>: \<open>conductor.cluster_update(ctx, c, values)\<close>;
  \<^item> \<open>proxy_domain_users_list\<close>: \<open>p.proxy_domain_users_list()\<close>;
  \<^item> \<open>job_execution_get je_id\<close>: \<open>conductor.job_execution_get(ctx, je_id)\<close>;
  \<^item> \<open>proxy_user_delete uid\<close>: \<open>p.proxy_user_delete(user_id=uid)\<close>;
  \<^item> \<open>JOB_STATUSES_TERMINATED\<close>: the constant of \<open>sahara.utils.edp\<close>;
  \<^item> \<open>job_manager_update_job_statuses c\<close>: \<open>job_manager.update_job_statuses()\<close>,
    called while the current context is \<open>c\<close>.
\<close>

record collaborators =
  stored_clusters :: "error + cluster list"
  job_execution_count :: "string \<Rightarrow> error + nat"
  parse_isotime :: "string \<Rightarrow> error + real"
  utcnow :: "cluster \<Rightarrow> real"
  use_os_admin_auth_token :: "cluster \<Rightarrow> error option"
  terminate_cluster :: "string \<Rightarrow> error option"
  cluster_update :: "cluster \<Rightarrow> (string \<times> string) list \<Rightarrow> error option"
  proxy_domain_users_list :: "error + user list"
  job_execution_get :: "string \<Rightarrow> error + job_execution option"
  proxy_user_delete :: "string \<Rightarrow> error option"
  JOB_STATUSES_TERMINATED :: "string list"
  job_manager_update_job_statuses :: "ctx option \<Rightarrow> error option"


text \<open>
  \<open>update_job_statuses\<close>: no \<open>try\<close> surrounds the call of the job manager, so an
  exception leaves the function before \<open>context.set_ctx(None)\<close>.
\<close>

definition update_job_statuses :: "collaborators \<Rightarrow> world \<Rightarrow> (error + unit) \<times> world" where
  "update_job_statuses co w =
     (let c = get_admin_context;
          w1 = set_ctx (Some c) w;
          w2 = w1\<lparr>actions := actions w1 @ [UpdateJobStatuses]\<rparr>
      in case job_manager_update_job_statuses co (current_ctx w2) of
           Some e \<Rightarrow> (Inl e, w2)
         | None \<Rightarrow> (Inr (), set_ctx None w2))"



text \<open>
  The test \<open>je is None or (je.info['status'] in edp.JOB_STATUSES_TERMINATED)\<close> for the
  job execution \<open>conductor.job_execution_get\<close> returned: \<open>je.info['status']\<close> raises
  \<open>TypeError\<close> when \<open>info\<close> is \<open>None\<close> and \<open>KeyError\<close> when the dictionary has no
  such key.
\<close>

definition je_test :: "collaborators \<Rightarrow> job_execution option \<Rightarrow> error + bool" where
  "je_test co je =
     (case je of
        None \<Rightarrow> Inr True
      | Some j \<Rightarrow>
          (case info j of
             None \<Rightarrow> Inl TypeError
           | Some d \<Rightarrow>
               (case d ''status'' of
                  None \<Rightarrow> Inl (KeyError ''status'')
                | Some st \<Rightarrow> Inr (st \<in> set (JOB_STATUSES_TERMINATED co)))))"

text \<open>
  The loop of \<open>check_for_zombie_proxy_users\<close>. \<open>user.name.startswith('job_')\<close> is
  \<open>prefix\<close> and \<open>user.name[4:]\<close> is \<open>drop 4\<close>. No call of the loop stands inside a
  \<open>try\<close>.
\<close>

fun users_loop ::
  "collaborators \<Rightarrow> user list \<Rightarrow> action list \<Rightarrow> (error + unit) \<times> action list" where
  "users_loop co [] acts = (Inr (), acts)"
| "users_loop co (u # rest) acts =
     (if prefix ''job_'' (user_name u) then
        (let je_id = drop 4 (user_name u) in
         case job_execution_get co je_id of
           Inl e \<Rightarrow> (Inl e, acts)
         | Inr je \<Rightarrow>
             (case je_test co je of
                Inl e \<Rightarrow> (Inl e, acts)
              | Inr True \<Rightarrow>
                  (case proxy_user_delete co (user_id u) of
                     Some e \<Rightarrow> (Inl e, acts @ [ProxyUserDelete (user_id u)])
                   | None \<Rightarrow> users_loop co rest (acts @ [ProxyUserDelete (user_id u)]))
              | Inr False \<Rightarrow> users_loop co rest acts))
      else users_loop co rest acts)"

definition check_for_zombie_proxy_users ::
  "collaborators \<Rightarrow> world \<Rightarrow> (error + unit) \<times> world" where
  "check_for_zombie_proxy_users co w =
     (let c = get_admin_context;
          w1 = set_ctx (Some c) w
      in case proxy_domain_users_list co of
           Inl e \<Rightarrow> (Inl e, w1)
         | Inr users \<Rightarrow>
             (case users_loop co users (actions w1) of
                (Inl e, acts) \<Rightarrow> (Inl e, w1\<lparr>actions := acts\<rparr>)
              | (Inr _, acts) \<Rightarrow> (Inr (), set_ctx None (w1\<lparr>actions := acts\<rparr>))))"

section \<open>periodic.py: what the claims speak of\<close>




text \<open>
  A zombie credential as the specification describes it: the name starts with \<open>job_\<close>
  and the job execution named by the rest is missing or has a terminal status.
\<close>

definition is_zombie :: "collaborators \<Rightarrow> user \<Rightarrow> bool" where
  "is_zombie co u \<longleftrightarrow>
     prefix ''job_'' (user_name u) \<and>
     (case job_execution_get co (drop 4 (user_name u)) of
        Inl e \<Rightarrow> False
      | Inr None \<Rightarrow> True
      | Inr (Some je) \<Rightarrow>
          (case info je of
             None \<Rightarrow> False
           | Some d \<Rightarrow>
               (case d ''status'' of
                  None \<Rightarrow> False
                | Some st \<Rightarrow> st \<in> set (JOB_STATUSES_TERMINATED co))))"

text \<open>
  The exception, if any, raised while the credential reaper deals with user \<open>u\<close>: for a
  name that starts with \<open>job_\<close>, the lookup of the job execution, the reading of its
  status, or the deletion of the credential of a zombie.
\<close>

definition user_error :: "collaborators \<Rightarrow> user \<Rightarrow> error option" where
  "user_error co u =
     (if \<not> prefix ''job_'' (user_name u) then None
      else
        (case job_execution_get co (drop 4 (user_name u)) of
           Inl e \<Rightarrow> Some e
         | Inr None \<Rightarrow> proxy_user_delete co (user_id u)
         | Inr (Some je) \<Rightarrow>
             (case info je of
                None \<Rightarrow> Some TypeError
              | Some d \<Rightarrow>
                  (case d ''status'' of
                     None \<Rightarrow> Some (KeyError ''status'')
                   | Some st \<Rightarrow>
                       if st \<in> set (JOB_STATUSES_TERMINATED co)
                       then proxy_user_delete co (user_id u) else None))))"

section \<open>Concrete inputs\<close>

text \<open>
  Completed commands used to instantiate the statements below.
\<close>

definition ok_cmd :: api_command where
  "ok_cmd = ApiCommand True None ''ok''"

definition bad_child :: api_command where
  "bad_child = ApiCommand False None ''child failed''"

definition bad_parent :: api_command where
  "bad_parent = ApiCommand False (Some [ok_cmd, bad_child, ok_cmd]) ''parent failed''"

definition bad_leaf :: api_command where
  "bad_leaf = ApiCommand False None ''leaf failed''"

definition swallowed_cmd :: api_command where
  "swallowed_cmd = ApiCommand False (Some []) ''Command failed''"

text \<open>
  Two clusters, and an instance of the second.
\<close>

definition cluster_a :: cluster where
  "cluster_a = \<lparr>cluster_id = ''id-a'', cluster_name = ''alpha'', status = ''Active'',
                 is_transient = True, updated_at = ''2015-03-01T10:00:00''\<rparr>"

definition cluster_b :: cluster where
  "cluster_b = \<lparr>cluster_id = ''id-b'', cluster_name = ''beta'', status = ''Active'',
                 is_transient = False, updated_at = ''2015-03-01T10:01:40''\<rparr>"

definition instance_b :: instance_t where
  "instance_b = \<lparr>fqdn = ''node-1.beta'',
                  node_group = \<lparr>ng_cluster = cluster_b, node_processes = [''DATANODE'']\<rparr>\<rparr>"

text \<open>
  An endpoint on which every call returns, and a decommission command that failed.
\<close>

definition endpoint_ok :: endpoint where
  "endpoint_ok tr c = None"

definition failed_decommission :: api_command where
  "failed_decommission = ApiCommand False None ''Decommission failed''"

text \<open>
  Two instances of the first cluster, an inventory in which the first and the third host
  are theirs, and an endpoint on which removing host \<open>h1\<close> from the cluster raises.
\<close>

definition instances_a :: "instance_t list" where
  "instances_a =
     [\<lparr>fqdn = ''node-1.alpha'',
       node_group = \<lparr>ng_cluster = cluster_a, node_processes = [''DATANODE'']\<rparr>\<rparr>,
      \<lparr>fqdn = ''node-2.alpha'',
       node_group = \<lparr>ng_cluster = cluster_a, node_processes = [''DATANODE'']\<rparr>\<rparr>]"

definition inventory_a :: "host list" where
  "inventory_a =
     [\<lparr>hostname = ''node-1.alpha'', hostId = ''h1''\<rparr>,
      \<lparr>hostname = ''elsewhere.example'', hostId = ''h2''\<rparr>,
      \<lparr>hostname = ''node-2.alpha'', hostId = ''h3''\<rparr>]"

definition endpoint_h1_fails :: endpoint where
  "endpoint_h1_fails tr c =
     (if c = RemoveHost (get_cloudera_cluster cluster_a) ''h1''
      then Some (RemoteError ''remove_host failed'') else None)"

text \<open>
  Three more clusters (one with a job execution still open, one updated ten seconds
  before the clock reading, one that is not Active), four proxy-domain users, and the
  collaborators that hold them; \<open>co_raises\<close> differs in that the job manager raises.
\<close>

definition cluster_c :: cluster where
  "cluster_c = \<lparr>cluster_id = ''id-c'', cluster_name = ''gamma'', status = ''Active'',
                 is_transient = True, updated_at = ''2015-03-01T10:00:00''\<rparr>"

definition cluster_d :: cluster where
  "cluster_d = \<lparr>cluster_id = ''id-d'', cluster_name = ''delta'', status = ''Active'',
                 is_transient = True, updated_at = ''2015-03-01T10:16:30''\<rparr>"

definition cluster_e :: cluster where
  "cluster_e = \<lparr>cluster_id = ''id-e'', cluster_name = ''epsilon'', status = ''Deleting'',
                 is_transient = True, updated_at = ''2015-03-01T10:00:00''\<rparr>"

definition users_a :: "user list" where
  "users_a =
     [\<lparr>user_id = ''u1'', user_name = ''job_je1''\<rparr>,
      \<lparr>user_id = ''u2'', user_name = ''admin''\<rparr>,
      \<lparr>user_id = ''u3'', user_name = ''job_je2''\<rparr>,
      \<lparr>user_id = ''u4'', user_name = ''job_gone''\<rparr>]"

definition co_a :: collaborators where
  "co_a =
     \<lparr>stored_clusters = Inr [cluster_a, cluster_b, cluster_c, cluster_d, cluster_e],
      job_execution_count = (\<lambda>cid. if cid = ''id-c'' then Inr 1 else Inr 0),
      parse_isotime =
        (\<lambda>s. if s = ''2015-03-01T10:00:00'' then Inr 0
             else if s = ''2015-03-01T10:01:40'' then Inr 100
             else if s = ''2015-03-01T10:16:30'' then Inr 990
             else Inl (ValueError ''unable to parse'')),
      utcnow = (\<lambda>c. 1000),
      use_os_admin_auth_token = (\<lambda>c. None),
      terminate_cluster = (\<lambda>cid. None),
      cluster_update = (\<lambda>c values. None),
      proxy_domain_users_list = Inr users_a,
      job_execution_get =
        (\<lambda>je_id. if je_id = ''je1'' then Inr (Some \<lparr>info = Some [''status'' \<mapsto> ''SUCCEEDED'']\<rparr>)
                else if je_id = ''je2'' then Inr (Some \<lparr>info = Some [''status'' \<mapsto> ''RUNNING'']\<rparr>)
                else Inr None),
      proxy_user_delete = (\<lambda>uid. None),
      JOB_STATUSES_TERMINATED = [''DONEWITHERROR'', ''FAILED'', ''KILLED'', ''SUCCEEDED''],
      job_manager_update_job_statuses = (\<lambda>c. None)\<rparr>"

definition co_raises :: collaborators where
  "co_raises =
     co_a\<lparr>job_manager_update_job_statuses := (\<lambda>c. Some (RemoteError ''job manager failed''))\<rparr>"

text \<open>
  Collaborators that differ from \<open>co_a\<close> in one call each: the status update of the
  first cluster raises; the count of open job executions of the third cluster raises;
  the deletion of the first user raises; the second job execution has no status in its
  \<open>info\<close>; the two listing calls raise.
\<close>

definition co_count_raises :: collaborators where
  "co_count_raises =
     co_a\<lparr>job_execution_count :=
            (\<lambda>cid. if cid = ''id-c'' then Inl (RemoteError ''conductor failed'') else Inr 0)\<rparr>"

definition co_update_raises :: collaborators where
  "co_update_raises =
     co_a\<lparr>cluster_update :=
            (\<lambda>c values. if c = cluster_a then Some (RemoteError ''conductor failed'')
                        else None)\<rparr>"

definition co_delete_raises :: collaborators where
  "co_delete_raises =
     co_a\<lparr>proxy_user_delete :=
            (\<lambda>uid. if uid = ''u1'' then Some (RemoteError ''keystone failed'') else None)\<rparr>"

definition co_no_status :: collaborators where
  "co_no_status =
     co_a\<lparr>job_execution_get :=
            (\<lambda>je_id. if je_id = ''je1'' then Inr (Some \<lparr>info = Some [''status'' \<mapsto> ''SUCCEEDED'']\<rparr>)
                    else if je_id = ''je2'' then Inr (Some \<lparr>info = Some Map.empty\<rparr>)
                    else Inr None)\<rparr>"

definition co_listing_raises :: collaborators where
  "co_listing_raises =
     co_a\<lparr>stored_clusters := Inl (RemoteError ''conductor failed''),
          proxy_domain_users_list := Inl (RemoteError ''keystone failed'')\<rparr>"


definition conf_v2 :: conf where
  "conf_v2 = \<lparr>use_identity_api_v3 = False, min_transient_cluster_active_time = 30\<rparr>"


definition world0 :: world where
  "world0 = \<lparr>current_ctx = None, actions = []\<rparr>"

text \<open>
  A clock that is read every five seconds, an inventory in which the second instance
  appears at the reading of 250 seconds, and one in which it never appears.
\<close>

definition elapsed_a :: "nat \<Rightarrow> real" where
  "elapsed_a k = 5 * real k"

definition inventory_late :: "nat \<Rightarrow> host list" where
  "inventory_late k =
     (if k < 50 then [\<lparr>hostname = ''node-1.alpha'', hostId = ''h1''\<rparr>] else inventory_a)"

definition inventory_never :: "nat \<Rightarrow> host list" where
  "inventory_never k = [\<lparr>hostname = ''node-1.alpha'', hostId = ''h1''\<rparr>]"

section \<open>The command wrapper\<close>

lemma children_loop_first_failure:
  "\<forall>y\<in>set before. success y \<Longrightarrow> \<not> success x \<Longrightarrow>
   children_loop (before @ x # after) = Some (HadoopProvisionError (resultMessage x))"
  by (induction before) auto

lemma children_loop_None: "children_loop cs = None \<longleftrightarrow> (\<forall>c\<in>set cs. success c)"
  by (induction cs) auto

lemma cloudera_cmd_passed_prefix:
  "cloudera_cmd pre = Inr () \<Longrightarrow> cloudera_cmd (pre @ cmds) = cloudera_cmd cmds"
  by (induction pre) (auto split: if_splits option.splits)

text \<open>
  C3. With no command left the wrapper returns without raising. A command \<open>c\<close> is
  waited on when the wrapper has raised nothing for the commands before it, whatever
  these were. Then: if \<open>c\<close> succeeded, the wrapper raises nothing for it and goes on
  with the commands after it; if \<open>c\<close> failed and its children are a sequence in which
  \<open>x\<close> is the first child that failed, the wrapper raises a provisioning error with the
  result message of \<open>x\<close>; if \<open>c\<close> failed and its children are \<open>None\<close>, the wrapper
  raises a provisioning error with the result message of \<open>c\<close> itself.
\<close>

theorem cloudera_cmd_outcomes:
  "cloudera_cmd [] = Inr () \<and>
   (cloudera_cmd pre = Inr () \<longrightarrow>
      (success c \<longrightarrow> cloudera_cmd (pre @ c # cmds) = cloudera_cmd cmds) \<and>
      (\<not> success c \<and> children c = Some (before @ x # after) \<and> (\<forall>y\<in>set before. success y)
         \<and> \<not> success x \<longrightarrow>
       cloudera_cmd (pre @ c # cmds) = Inl (HadoopProvisionError (resultMessage x))) \<and>
      (\<not> success c \<and> children c = None \<longrightarrow>
       cloudera_cmd (pre @ c # cmds) = Inl (HadoopProvisionError (resultMessage c))))"
proof (intro conjI impI)
  show "cloudera_cmd [] = Inr ()" by simp
next
  assume "cloudera_cmd pre = Inr ()" and "success c"
  then show "cloudera_cmd (pre @ c # cmds) = cloudera_cmd cmds"
    by (simp add: cloudera_cmd_passed_prefix)
next
  assume "cloudera_cmd pre = Inr ()"
    and "\<not> success c \<and> children c = Some (before @ x # after) \<and> (\<forall>y\<in>set before. success y)
           \<and> \<not> success x"
  then show "cloudera_cmd (pre @ c # cmds) = Inl (HadoopProvisionError (resultMessage x))"
    by (simp add: cloudera_cmd_passed_prefix children_loop_first_failure)
next
  assume "cloudera_cmd pre = Inr ()" and "\<not> success c \<and> children c = None"
  then show "cloudera_cmd (pre @ c # cmds) = Inl (HadoopProvisionError (resultMessage c))"
    by (simp add: cloudera_cmd_passed_prefix)
qed

theorem cloudera_cmd_outcomes_witness:
  "cloudera_cmd [ok_cmd, swallowed_cmd, ok_cmd] = Inr () \<and>
   cloudera_cmd ([ok_cmd, swallowed_cmd] @ ok_cmd # [bad_leaf])
     = Inl (HadoopProvisionError ''leaf failed'') \<and>
   cloudera_cmd ([ok_cmd, swallowed_cmd] @ bad_parent # [ok_cmd])
     = Inl (HadoopProvisionError ''child failed'') \<and>
   cloudera_cmd ([ok_cmd, swallowed_cmd] @ bad_leaf # [ok_cmd])
     = Inl (HadoopProvisionError ''leaf failed'')"
proof -
  have pre: "cloudera_cmd [ok_cmd, swallowed_cmd] = Inr ()"
    by (simp add: ok_cmd_def swallowed_cmd_def)
  have ok: "success ok_cmd"
    by (simp add: ok_cmd_def)
  have e: "cloudera_cmd [] = Inr ()"
    using cloudera_cmd_outcomes [of "[]" ok_cmd "[]"] by (rule conjunct1)
  have r: "cloudera_cmd ([ok_cmd, swallowed_cmd] @ ok_cmd # []) = cloudera_cmd []"
    using cloudera_cmd_outcomes [of "[ok_cmd, swallowed_cmd]" ok_cmd "[]"] pre ok by blast
  have a: "cloudera_cmd ([ok_cmd, swallowed_cmd] @ ok_cmd # [bad_leaf]) = cloudera_cmd [bad_leaf]"
    using cloudera_cmd_outcomes [of "[ok_cmd, swallowed_cmd]" ok_cmd "[bad_leaf]"] pre ok by blast
  have l: "cloudera_cmd ([] @ bad_leaf # []) = Inl (HadoopProvisionError (resultMessage bad_leaf))"
    using cloudera_cmd_outcomes [of "[]" bad_leaf "[]"] by (simp add: bad_leaf_def)
  have b: "cloudera_cmd ([ok_cmd, swallowed_cmd] @ bad_parent # [ok_cmd])
             = Inl (HadoopProvisionError (resultMessage bad_child))"
    using cloudera_cmd_outcomes
            [of "[ok_cmd, swallowed_cmd]" bad_parent "[ok_cmd]" "[ok_cmd]" bad_child "[ok_cmd]"] pre
    by (simp add: ok_cmd_def bad_parent_def bad_child_def)
  have c: "cloudera_cmd ([ok_cmd, swallowed_cmd] @ bad_leaf # [ok_cmd])
             = Inl (HadoopProvisionError (resultMessage bad_leaf))"
    using cloudera_cmd_outcomes [of "[ok_cmd, swallowed_cmd]" bad_leaf "[ok_cmd]"] pre
    by (simp add: bad_leaf_def)
  show ?thesis
    using e r a l b c by (simp add: bad_leaf_def bad_child_def)
qed


text \<open>
  C2. A command that failed (\<open>success = False\<close>) whose \<open>children\<close> is the empty sequence:
  the wrapper finds no failed child, raises nothing and returns.
\<close>

theorem cloudera_cmd_swallows_failure:
  "\<not> success swallowed_cmd \<and> children swallowed_cmd = Some [] \<and>
   cloudera_cmd [swallowed_cmd] = Inr ()"
  by (simp add: swallowed_cmd_def)

section \<open>The service router\<close>

lemmas service_names =
  HDFS_SERVICE_NAME_def YARN_SERVICE_NAME_def OOZIE_SERVICE_NAME_def HIVE_SERVICE_NAME_def
  HUE_SERVICE_NAME_def SPARK_SERVICE_NAME_def ZOOKEEPER_SERVICE_NAME_def HBASE_SERVICE_NAME_def

lemma chain_route:
  "(if process \<in> set [''NAMENODE'', ''DATANODE'', ''SECONDARYNAMENODE''] then
      Inr (get_service cm HDFS_SERVICE_NAME)
    else if process \<in> set [''RESOURCEMANAGER'', ''NODEMANAGER'', ''JOBHISTORY''] then
      Inr (get_service cm YARN_SERVICE_NAME)
    else if process \<in> set [''OOZIE_SERVER''] then
      Inr (get_service cm OOZIE_SERVICE_NAME)
    else if process \<in> set [''HIVESERVER2'', ''HIVEMETASTORE'', ''WEBHCAT''] then
      Inr (get_service cm HIVE_SERVICE_NAME)
    else if process \<in> set [''HUE_SERVER''] then
      Inr (get_service cm HUE_SERVICE_NAME)
    else if process \<in> set [''SPARK_YARN_HISTORY_SERVER''] then
      Inr (get_service cm SPARK_SERVICE_NAME)
    else if process \<in> set [''SERVER''] then
      Inr (get_service cm ZOOKEEPER_SERVICE_NAME)
    else if process \<in> set [''MASTER'', ''REGIONSERVER''] then
      Inr (get_service cm HBASE_SERVICE_NAME)
    else
      Inl (ValueError (''Process '' @ process @ '' is not supported by CDH plugin'')))
   = route cm process"
  unfolding route_def service_table_def service_names get_service_def unsupported_def
  by (simp del: append.simps)

text \<open>
  C6. Given a cluster (with or without an instance), or no cluster and an instance,
  \<open>get_service_by_role\<close> is the router of the table on the resolved cluster: for a
  process of the table it returns the service of that name, for any other process it
  raises the "not supported" \<open>ValueError\<close>.
\<close>

theorem get_service_by_role_table:
  "get_service_by_role process (Some c) inst = route (get_cloudera_cluster c) process \<and>
   get_service_by_role process None (Some i)
     = route (get_cloudera_cluster (ng_cluster (node_group i))) process"
  by (simp only: get_service_by_role_def chain_route option.case sum.case simp_thms)

theorem get_service_by_role_table_witness:
  "get_service_by_role ''NAMENODE'' (Some cluster_a) None
     = Inr (ApiService (ApiCluster (ApiResource cluster_a) ''alpha'') ''hdfs01'') \<and>
   get_service_by_role ''REGIONSERVER'' None (Some instance_b)
     = Inr (ApiService (ApiCluster (ApiResource cluster_b) ''beta'') ''hbase01'') \<and>
   get_service_by_role ''CLOUDERA_MANAGER'' (Some cluster_a) None
     = Inl (ValueError ''Process CLOUDERA_MANAGER is not supported by CDH plugin'')"
  using get_service_by_role_table [of "''NAMENODE''" cluster_a None instance_b]
        get_service_by_role_table [of "''REGIONSERVER''" cluster_a None instance_b]
        get_service_by_role_table [of "''CLOUDERA_MANAGER''" cluster_a None instance_b]
  by (simp add: route_def service_table_def unsupported_def get_cloudera_cluster_def
        get_api_client_def cluster_a_def cluster_b_def instance_b_def)

text \<open>
  C10. With both a cluster and an instance given, the result is the one for the cluster
  alone, and a service returned is a service of the cluster given directly: the instance
  and its own cluster play no part.
\<close>

theorem get_service_by_role_cluster_first:
  "get_service_by_role process (Some c) (Some i) = get_service_by_role process (Some c) None \<and>
   (\<forall>svc. get_service_by_role process (Some c) (Some i) = Inr svc \<longrightarrow>
      (\<exists>n. svc = ApiService (get_cloudera_cluster c) n))"
  unfolding get_service_by_role_def get_service_def by simp

theorem get_service_by_role_cluster_first_witness:
  "get_service_by_role ''DATANODE'' (Some cluster_a) (Some instance_b)
     = Inr (ApiService (get_cloudera_cluster cluster_a) ''hdfs01'') \<and>
   get_cloudera_cluster cluster_a \<noteq> get_cloudera_cluster (ng_cluster (node_group instance_b))"
proof -
  have e: "get_service_by_role ''DATANODE'' (Some cluster_a) None
             = Inr (ApiService (get_cloudera_cluster cluster_a) ''hdfs01'')"
    by (simp add: get_service_by_role_def get_service_def HDFS_SERVICE_NAME_def)
  have d: "get_cloudera_cluster cluster_a
             \<noteq> get_cloudera_cluster (ng_cluster (node_group instance_b))"
    by (simp add: get_cloudera_cluster_def get_api_client_def cluster_a_def cluster_b_def
          instance_b_def)
  show ?thesis
    using get_service_by_role_cluster_first [of "''DATANODE''" cluster_a instance_b] e d
    by simp
qed

section \<open>Decommissioning and deleting\<close>

text \<open>
  C1. The decommission command completes with \<open>success = False\<close>, and
  \<open>decommission_nodes\<close> goes on all the same: it deletes both roles and returns
  without an error.
\<close>

theorem decommission_nodes_deletes_after_failure:
  "\<not> success failed_decommission \<and>
   decommission_nodes endpoint_ok failed_decommission cluster_a ''DATANODE'' [''dn1'', ''dn2'']
     = (Inr (),
        [Decommission (ApiService (get_cloudera_cluster cluster_a) ''hdfs01'') [''dn1'', ''dn2''],
         DeleteRole (ApiService (get_cloudera_cluster cluster_a) ''hdfs01'') ''dn1'',
         DeleteRole (ApiService (get_cloudera_cluster cluster_a) ''hdfs01'') ''dn2''])"
  by (simp add: decommission_nodes_def get_service_by_role_def get_service_def
        HDFS_SERVICE_NAME_def invoke_def endpoint_ok_def failed_decommission_def)

lemma hosts_loop_run_calls:
  "hosts_loop ep api cm names hosts tr = run_calls ep (removal_plan api cm names hosts) tr"
proof (induction hosts arbitrary: tr)
  case Nil
  show ?case by (simp add: removal_plan_def)
next
  case (Cons h hosts)
  show ?case
  proof (cases "hostname h \<in> set names")
    case False
    then show ?thesis using Cons.IH by (simp add: removal_plan_def)
  next
    case True
    then show ?thesis using Cons.IH
      by (simp add: removal_plan_def invoke_def split: option.splits)
  qed
qed

lemma run_calls_all_return:
  "\<forall>n<length cs. ep (tr @ take n cs) (cs ! n) = None \<Longrightarrow> run_calls ep cs tr = (Inr (), tr @ cs)"
proof (induction cs arbitrary: tr)
  case Nil
  show ?case by simp
next
  case (Cons c cs)
  have h: "ep tr c = None" using Cons.prems by force
  have "\<forall>n<length cs. ep ((tr @ [c]) @ take n cs) (cs ! n) = None"
  proof (intro allI impI)
    fix n assume "n < length cs"
    then have "ep (tr @ take (Suc n) (c # cs)) ((c # cs) ! Suc n) = None"
      using Cons.prems by (metis Suc_less_eq length_Cons)
    then show "ep ((tr @ [c]) @ take n cs) (cs ! n) = None" by simp
  qed
  then have "run_calls ep cs (tr @ [c]) = (Inr (), (tr @ [c]) @ cs)" by (rule Cons.IH)
  then show ?case using h by (simp add: invoke_def)
qed

lemma run_calls_first_raise:
  "n < length cs \<Longrightarrow> \<forall>m<n. ep (tr @ take m cs) (cs ! m) = None \<Longrightarrow>
   ep (tr @ take n cs) (cs ! n) = Some e \<Longrightarrow>
   run_calls ep cs tr = (Inl e, tr @ take (Suc n) cs)"
proof (induction cs arbitrary: tr n)
  case Nil
  then show ?case by simp
next
  case (Cons c cs)
  show ?case
  proof (cases n)
    case 0
    then show ?thesis using Cons.prems by (simp add: invoke_def)
  next
    case (Suc k)
    have h: "ep tr c = None" using Cons.prems(2) Suc by force
    have k: "k < length cs" using Cons.prems(1) Suc by simp
    have pre: "\<forall>m<k. ep ((tr @ [c]) @ take m cs) (cs ! m) = None"
    proof (intro allI impI)
      fix m assume "m < k"
      then have "ep (tr @ take (Suc m) (c # cs)) ((c # cs) ! Suc m) = None"
        using Cons.prems(2) Suc by (metis Suc_less_eq)
      then show "ep ((tr @ [c]) @ take m cs) (cs ! m) = None" by simp
    qed
    have at: "ep ((tr @ [c]) @ take k cs) (cs ! k) = Some e"
      using Cons.prems(3) Suc by simp
    have "run_calls ep cs (tr @ [c]) = (Inl e, (tr @ [c]) @ take (Suc k) cs)"
      using k pre at by (rule Cons.IH)
    then show ?thesis using h Suc by (simp add: invoke_def)
  qed
qed

lemma plan_a:
  "removal_plan (get_api_client cluster_a) (get_cloudera_cluster cluster_a)
     (map fqdn instances_a) inventory_a
   = [RemoveHost (get_cloudera_cluster cluster_a) ''h1'', DeleteHost (get_api_client cluster_a) ''h1'',
      RemoveHost (get_cloudera_cluster cluster_a) ''h3'', DeleteHost (get_api_client cluster_a) ''h3'']"
  by (simp add: removal_plan_def instances_a_def inventory_a_def)

text \<open>
  C4, as the claim states it, fails: both the first and the third host of the inventory
  belong to the given instances, removing the first from the cluster raises, and the
  function ends there. The deletion of the first host is not attempted, and nothing is
  attempted on the third.
\<close>

theorem delete_instances_stops_at_failure:
  "hostname (inventory_a ! 2) \<in> set (map fqdn instances_a) \<and>
   delete_instances endpoint_h1_fails inventory_a cluster_a instances_a
     = (Inl (RemoteError ''remove_host failed''),
        [RemoveHost (get_cloudera_cluster cluster_a) ''h1'']) \<and>
   DeleteHost (get_api_client cluster_a) ''h1''
     \<notin> set (snd (delete_instances endpoint_h1_fails inventory_a cluster_a instances_a)) \<and>
   RemoveHost (get_cloudera_cluster cluster_a) (hostId (inventory_a ! 2))
     \<notin> set (snd (delete_instances endpoint_h1_fails inventory_a cluster_a instances_a))"
  by (simp add: delete_instances_def invoke_def endpoint_h1_fails_def inventory_a_def
        instances_a_def)

text \<open>
  C4, amended. For the hosts of the fetched inventory whose hostname is the
  fully-qualified name of a given instance, taken in inventory order, the removal from
  the cluster and then the deletion of the host are called, one host after the other, as
  long as every call returns: if all of them return, all of them are made and the
  function returns; if the \<open>n\<close>-th call is the first to raise, the calls made are exactly
  those up to it, and its exception leaves the function.
\<close>

theorem delete_instances_until_first_failure:
  "(let plan = removal_plan (get_api_client cluster) (get_cloudera_cluster cluster)
                 (map fqdn instances) all_hosts
    in ((\<forall>n<length plan. ep (take n plan) (plan ! n) = None) \<longrightarrow>
          delete_instances ep all_hosts cluster instances = (Inr (), plan)) \<and>
       (n < length plan \<and> (\<forall>m<n. ep (take m plan) (plan ! m) = None) \<and>
          ep (take n plan) (plan ! n) = Some e \<longrightarrow>
          delete_instances ep all_hosts cluster instances = (Inl e, take (Suc n) plan)))"
  unfolding Let_def delete_instances_def hosts_loop_run_calls
  using run_calls_all_return [of _ ep "[]"] run_calls_first_raise [of _ _ ep "[]"]
  by simp

theorem delete_instances_until_first_failure_witness:
  "delete_instances endpoint_ok inventory_a cluster_a instances_a
     = (Inr (), [RemoveHost (get_cloudera_cluster cluster_a) ''h1'',
                 DeleteHost (get_api_client cluster_a) ''h1'',
                 RemoveHost (get_cloudera_cluster cluster_a) ''h3'',
                 DeleteHost (get_api_client cluster_a) ''h3'']) \<and>
   delete_instances endpoint_h1_fails inventory_a cluster_a instances_a
     = (Inl (RemoteError ''remove_host failed''),
        [RemoveHost (get_cloudera_cluster cluster_a) ''h1''])"
proof -
  have a: "delete_instances endpoint_ok inventory_a cluster_a instances_a
     = (Inr (), [RemoveHost (get_cloudera_cluster cluster_a) ''h1'',
                 DeleteHost (get_api_client cluster_a) ''h1'',
                 RemoveHost (get_cloudera_cluster cluster_a) ''h3'',
                 DeleteHost (get_api_client cluster_a) ''h3''])"
    using delete_instances_until_first_failure [of cluster_a instances_a inventory_a endpoint_ok]
    by (simp add: plan_a Let_def endpoint_ok_def)
  have b: "delete_instances endpoint_h1_fails inventory_a cluster_a instances_a
     = (Inl (RemoteError ''remove_host failed''),
        [RemoveHost (get_cloudera_cluster cluster_a) ''h1''])"
    using delete_instances_until_first_failure
            [of cluster_a instances_a inventory_a endpoint_h1_fails 0
                "RemoteError ''remove_host failed''"]
    by (simp add: plan_a Let_def endpoint_h1_fails_def)
  show ?thesis using a b by simp
qed

section \<open>The periodic tasks\<close>


lemmas co_defs = co_a_def co_count_raises_def co_update_raises_def co_delete_raises_def
  co_no_status_def co_listing_raises_def co_raises_def











lemma users_loop_step_ok:
  "user_error co u = None \<Longrightarrow>
   users_loop co (u # rest) acts
     = users_loop co rest (acts @ (if is_zombie co u then [ProxyUserDelete (user_id u)] else []))"
  by (auto simp: user_error_def is_zombie_def je_test_def Let_def
        split: sum.splits option.splits if_splits bool.splits)

lemma users_loop_step_raise:
  "user_error co u = Some e \<Longrightarrow>
   users_loop co (u # rest) acts
     = (Inl e, acts @ (if is_zombie co u then [ProxyUserDelete (user_id u)] else []))"
  by (auto simp: user_error_def is_zombie_def je_test_def Let_def
        split: sum.splits option.splits if_splits bool.splits)

lemma users_loop_pass:
  "\<forall>u\<in>set us. user_error co u = None \<Longrightarrow>
   users_loop co (us @ rest) acts
     = users_loop co rest
         (acts @ map (\<lambda>u. ProxyUserDelete (user_id u)) (filter (is_zombie co) us))"
proof (induction us arbitrary: acts)
  case Nil
  show ?case by simp
next
  case (Cons u us)
  have u: "user_error co u = None"
    using Cons.prems by simp
  have "users_loop co ((u # us) @ rest) acts
          = users_loop co (us @ rest)
              (acts @ (if is_zombie co u then [ProxyUserDelete (user_id u)] else []))"
    using users_loop_step_ok [OF u] by simp
  also have "\<dots> = users_loop co rest
      ((acts @ (if is_zombie co u then [ProxyUserDelete (user_id u)] else []))
         @ map (\<lambda>u. ProxyUserDelete (user_id u)) (filter (is_zombie co) us))"
    using Cons.prems by (intro Cons.IH) simp
  finally show ?case by simp
qed

lemma witness_users_co_a:
  "proxy_domain_users_list co_a = Inr users_a \<and>
   (\<forall>u\<in>set users_a. user_error co_a u = None) \<and>
   map (\<lambda>u. ProxyUserDelete (user_id u)) (filter (is_zombie co_a) users_a)
     = [ProxyUserDelete ''u1'', ProxyUserDelete ''u4'']"
  by (simp add: co_defs user_error_def is_zombie_def users_a_def)

lemma witness_users_co_no_status:
  "proxy_domain_users_list co_no_status
     = Inr ([\<lparr>user_id = ''u1'', user_name = ''job_je1''\<rparr>, \<lparr>user_id = ''u2'', user_name = ''admin''\<rparr>]
            @ \<lparr>user_id = ''u3'', user_name = ''job_je2''\<rparr>
            # [\<lparr>user_id = ''u4'', user_name = ''job_gone''\<rparr>]) \<and>
   (\<forall>b\<in>set [\<lparr>user_id = ''u1'', user_name = ''job_je1''\<rparr>, \<lparr>user_id = ''u2'', user_name = ''admin''\<rparr>].
      user_error co_no_status b = None) \<and>
   user_error co_no_status \<lparr>user_id = ''u3'', user_name = ''job_je2''\<rparr> = Some (KeyError ''status'') \<and>
   map (\<lambda>u. ProxyUserDelete (user_id u))
     (filter (is_zombie co_no_status)
        [\<lparr>user_id = ''u1'', user_name = ''job_je1''\<rparr>, \<lparr>user_id = ''u2'', user_name = ''admin''\<rparr>])
     = [ProxyUserDelete ''u1''] \<and>
   \<not> is_zombie co_no_status \<lparr>user_id = ''u3'', user_name = ''job_je2''\<rparr>"
  by (simp add: co_defs user_error_def is_zombie_def users_a_def)

text \<open>
  C7, as the claim states it, fails: the deletion of the first user's credential raises,
  outside any \<open>try\<close>, and the cycle ends there. The fourth user is named \<open>job_gone\<close>,
  no job execution \<open>gone\<close> exists, and its credential is not deleted.
\<close>

theorem check_for_zombie_proxy_users_stops_at_failure:
  "proxy_domain_users_list co_delete_raises = Inr users_a \<and>
   is_zombie co_delete_raises (users_a ! 3) \<and>
   check_for_zombie_proxy_users co_delete_raises world0
     = (Inl (RemoteError ''keystone failed''),
        \<lparr>current_ctx = Some AdminContext, actions = [ProxyUserDelete ''u1'']\<rparr>) \<and>
   ProxyUserDelete (user_id (users_a ! 3))
     \<notin> set (actions (snd (check_for_zombie_proxy_users co_delete_raises world0)))"
  by (simp add: check_for_zombie_proxy_users_def Let_def set_ctx_def get_admin_context_def
        is_zombie_def je_test_def co_defs users_a_def world0_def)

text \<open>
  C7, amended. One run of \<open>check_for_zombie_proxy_users\<close>, with the users taken in the
  order they are listed. If no call raises for any of them, the credentials deleted are
  exactly those of the users whose name starts with \<open>job_\<close> and whose job execution,
  looked up by the rest of the name, is missing or has a terminal status; a user whose
  name does not start with \<open>job_\<close>, and a user whose job execution exists with a status
  that is not terminal, is left alone; the context is reset. If \<open>u\<close> is the first user
  for which a call raises (the lookup, the reading of the status, or the deletion), the
  exception leaves the task with the context still set: the users before \<open>u\<close> have been
  deleted exactly when they are such zombies, for \<open>u\<close> at most the deletion that raised
  has been attempted, and no user after \<open>u\<close> is deleted. If the listing of the users
  raises, nothing is deleted.
\<close>

theorem check_for_zombie_proxy_users_deletes:
  "(proxy_domain_users_list co = Inl e \<longrightarrow>
      check_for_zombie_proxy_users co w = (Inl e, w\<lparr>current_ctx := Some AdminContext\<rparr>)) \<and>
   (proxy_domain_users_list co = Inr us \<and> (\<forall>u\<in>set us. user_error co u = None) \<longrightarrow>
      check_for_zombie_proxy_users co w
        = (Inr (), w\<lparr>current_ctx := None,
                     actions := actions w @ map (\<lambda>u. ProxyUserDelete (user_id u))
                                           (filter (is_zombie co) us)\<rparr>)) \<and>
   (proxy_domain_users_list co = Inr (before @ u # after) \<and>
    (\<forall>b\<in>set before. user_error co b = None) \<and> user_error co u = Some e \<longrightarrow>
      check_for_zombie_proxy_users co w
        = (Inl e, w\<lparr>current_ctx := Some AdminContext,
                    actions := actions w @ map (\<lambda>u. ProxyUserDelete (user_id u))
                                          (filter (is_zombie co) before)
                                 @ (if is_zombie co u then [ProxyUserDelete (user_id u)]
                                    else [])\<rparr>))"
proof (intro conjI impI)
  assume "proxy_domain_users_list co = Inl e"
  then show "check_for_zombie_proxy_users co w = (Inl e, w\<lparr>current_ctx := Some AdminContext\<rparr>)"
    by (simp add: check_for_zombie_proxy_users_def Let_def set_ctx_def get_admin_context_def)
next
  assume a: "proxy_domain_users_list co = Inr us \<and> (\<forall>u\<in>set us. user_error co u = None)"
  then have "users_loop co (us @ []) (actions w)
      = users_loop co []
          (actions w @ map (\<lambda>u. ProxyUserDelete (user_id u)) (filter (is_zombie co) us))"
    by (intro users_loop_pass) simp
  then show "check_for_zombie_proxy_users co w
        = (Inr (), w\<lparr>current_ctx := None,
                     actions := actions w @ map (\<lambda>u. ProxyUserDelete (user_id u))
                                           (filter (is_zombie co) us)\<rparr>)"
    using a by (simp add: check_for_zombie_proxy_users_def Let_def set_ctx_def
          get_admin_context_def)
next
  assume b: "proxy_domain_users_list co = Inr (before @ u # after) \<and>
    (\<forall>b\<in>set before. user_error co b = None) \<and> user_error co u = Some e"
  then have "users_loop co (before @ u # after) (actions w)
      = users_loop co (u # after)
          (actions w @ map (\<lambda>u. ProxyUserDelete (user_id u)) (filter (is_zombie co) before))"
    by (intro users_loop_pass) simp
  also have "\<dots> = (Inl e,
      (actions w @ map (\<lambda>u. ProxyUserDelete (user_id u)) (filter (is_zombie co) before))
        @ (if is_zombie co u then [ProxyUserDelete (user_id u)] else []))"
    using b by (intro users_loop_step_raise) simp
  finally show "check_for_zombie_proxy_users co w
        = (Inl e, w\<lparr>current_ctx := Some AdminContext,
                    actions := actions w @ map (\<lambda>u. ProxyUserDelete (user_id u))
                                          (filter (is_zombie co) before)
                                 @ (if is_zombie co u then [ProxyUserDelete (user_id u)]
                                    else [])\<rparr>)"
    using b by (simp add: check_for_zombie_proxy_users_def Let_def set_ctx_def
          get_admin_context_def)
qed

theorem check_for_zombie_proxy_users_deletes_witness:
  "check_for_zombie_proxy_users co_listing_raises world0
     = (Inl (RemoteError ''keystone failed''),
        \<lparr>current_ctx = Some AdminContext, actions = []\<rparr>) \<and>
   check_for_zombie_proxy_users co_a world0
     = (Inr (), \<lparr>current_ctx = None,
                 actions = [ProxyUserDelete ''u1'', ProxyUserDelete ''u4'']\<rparr>) \<and>
   check_for_zombie_proxy_users co_no_status world0
     = (Inl (KeyError ''status''),
        \<lparr>current_ctx = Some AdminContext, actions = [ProxyUserDelete ''u1'']\<rparr>)"
proof -
  have l: "proxy_domain_users_list co_listing_raises = Inl (RemoteError ''keystone failed'')"
    by (simp add: co_defs)
  have a: "check_for_zombie_proxy_users co_listing_raises world0
     = (Inl (RemoteError ''keystone failed''), world0\<lparr>current_ctx := Some AdminContext\<rparr>)"
    using check_for_zombie_proxy_users_deletes
            [where co = co_listing_raises and w = world0
               and e = "RemoteError ''keystone failed''"] l
    by blast
  have b: "check_for_zombie_proxy_users co_a world0
     = (Inr (), world0\<lparr>current_ctx := None,
          actions := actions world0 @ [ProxyUserDelete ''u1'', ProxyUserDelete ''u4'']\<rparr>)"
    using check_for_zombie_proxy_users_deletes [where co = co_a and w = world0 and us = users_a]
          witness_users_co_a
    by simp
  have c: "check_for_zombie_proxy_users co_no_status world0
     = (Inl (KeyError ''status''),
        world0\<lparr>current_ctx := Some AdminContext,
          actions := actions world0 @ [ProxyUserDelete ''u1''] @ []\<rparr>)"
    using check_for_zombie_proxy_users_deletes
            [where co = co_no_status and w = world0
               and before = "[\<lparr>user_id = ''u1'', user_name = ''job_je1''\<rparr>,
                              \<lparr>user_id = ''u2'', user_name = ''admin''\<rparr>]"
               and u = "\<lparr>user_id = ''u3'', user_name = ''job_je2''\<rparr>"
               and after = "[\<lparr>user_id = ''u4'', user_name = ''job_gone''\<rparr>]"
               and e = "KeyError ''status''"]
          witness_users_co_no_status
    by simp
  show ?thesis
    unfolding a b c by (simp add: world0_def)
qed

text \<open>
  C9, as the claim states it, fails: when the job manager raises, the exception leaves
  \<open>update_job_statuses\<close> and the current context is still the administrative one.
\<close>

theorem update_job_statuses_leaves_context:
  "job_manager_update_job_statuses co_raises (Some get_admin_context)
     = Some (RemoteError ''job manager failed'') \<and>
   fst (update_job_statuses co_raises world0) = Inl (RemoteError ''job manager failed'') \<and>
   current_ctx (snd (update_job_statuses co_raises world0)) = Some AdminContext \<and>
   current_ctx (snd (update_job_statuses co_raises world0)) \<noteq> None"
  by (simp add: update_job_statuses_def Let_def set_ctx_def get_admin_context_def
        co_raises_def co_a_def world0_def)

text \<open>
  C9, amended. \<open>update_job_statuses\<close> sets the administrative context and calls the
  job manager under it. If the call returns, the context is reset to \<open>None\<close>. If the
  call raises, the exception propagates and the context stays as set.
\<close>

theorem update_job_statuses_context:
  "(job_manager_update_job_statuses co (Some AdminContext) = None \<longrightarrow>
      update_job_statuses co w
        = (Inr (), w\<lparr>current_ctx := None, actions := actions w @ [UpdateJobStatuses]\<rparr>)) \<and>
   (job_manager_update_job_statuses co (Some AdminContext) = Some e \<longrightarrow>
      update_job_statuses co w
        = (Inl e, w\<lparr>current_ctx := Some AdminContext,
                    actions := actions w @ [UpdateJobStatuses]\<rparr>))"
  by (simp add: update_job_statuses_def Let_def set_ctx_def get_admin_context_def)

theorem update_job_statuses_context_witness:
  "update_job_statuses co_a world0
     = (Inr (), \<lparr>current_ctx = None, actions = [UpdateJobStatuses]\<rparr>) \<and>
   update_job_statuses co_raises world0
     = (Inl (RemoteError ''job manager failed''),
        \<lparr>current_ctx = Some AdminContext, actions = [UpdateJobStatuses]\<rparr>)"
  using update_job_statuses_context [where co = co_a and w = world0]
        update_job_statuses_context [where co = co_raises and w = world0
          and e = "RemoteError ''job manager failed''"]
  by (simp add: co_a_def co_raises_def world0_def)

section \<open>Waiting for the agents\<close>

lemma is_ok_loop_subset: "is_ok_loop hostnames m \<longleftrightarrow> set hostnames \<subseteq> set m"
  by (induction hostnames) auto

lemma is_ok_loop_registered:
  "is_ok_loop (map fqdn instances) (map hostname hosts) \<longleftrightarrow> registered instances hosts"
  unfolding registered_def by (rule is_ok_loop_subset)

lemma await_loop_round:
  "elapsed i < 300 \<Longrightarrow> \<not> registered instances (inventory i) \<Longrightarrow>
   await_loop elapsed inventory api instances i evs
     = await_loop elapsed inventory api instances (Suc i) (evs @ [GetAllHosts api, Sleep 5])"
  by (subst await_loop.simps) (simp add: is_ok_loop_registered)

lemma await_loop_rounds:
  "\<forall>j<k. elapsed (i + j) < 300 \<and> \<not> registered instances (inventory (i + j)) \<Longrightarrow>
   await_loop elapsed inventory api instances i evs
     = await_loop elapsed inventory api instances (i + k) (evs @ polls api k)"
proof (induction k arbitrary: i evs)
  case 0
  show ?case by (simp add: polls_def)
next
  case (Suc k)
  have first: "elapsed i < 300 \<and> \<not> registered instances (inventory i)"
    using Suc.prems by force
  have rest: "\<forall>j<k. elapsed (Suc i + j) < 300 \<and> \<not> registered instances (inventory (Suc i + j))"
  proof (intro allI impI)
    fix j assume "j < k"
    then have "Suc j < Suc k" by simp
    then have "elapsed (i + Suc j) < 300 \<and> \<not> registered instances (inventory (i + Suc j))"
      using Suc.prems by blast
    then show "elapsed (Suc i + j) < 300 \<and> \<not> registered instances (inventory (Suc i + j))"
      by simp
  qed
  have "await_loop elapsed inventory api instances i evs
          = await_loop elapsed inventory api instances (Suc i) (evs @ [GetAllHosts api, Sleep 5])"
    using first by (simp add: await_loop_round)
  also have "\<dots> = await_loop elapsed inventory api instances (Suc i + k)
                     ((evs @ [GetAllHosts api, Sleep 5]) @ polls api k)"
    using rest by (rule Suc.IH)
  finally show ?case by (simp add: polls_def)
qed

lemma await_loop_success:
  assumes "\<forall>j<k. elapsed j < 300 \<and> \<not> registered instances (inventory j)"
    and "elapsed k < 300" and "registered instances (inventory k)"
  shows "await_loop elapsed inventory api instances 0 []
           = Some (Inr (), polls api k @ [GetAllHosts api])"
proof -
  have "await_loop elapsed inventory api instances 0 []
          = await_loop elapsed inventory api instances (0 + k) ([] @ polls api k)"
    using assms(1) by (intro await_loop_rounds) simp
  also have "\<dots> = Some (Inr (), polls api k @ [GetAllHosts api])"
    using assms(2,3) by (subst await_loop.simps) (simp add: is_ok_loop_registered)
  finally show ?thesis .
qed

lemma await_loop_timeout:
  assumes "\<forall>j<k. elapsed j < 300 \<and> \<not> registered instances (inventory j)"
    and "300 \<le> elapsed k"
  shows "await_loop elapsed inventory api instances 0 [] = Some (Inl agents_failed, polls api k)"
proof -
  have "await_loop elapsed inventory api instances 0 []
          = await_loop elapsed inventory api instances (0 + k) ([] @ polls api k)"
    using assms(1) by (intro await_loop_rounds) simp
  also have "\<dots> = Some (Inl agents_failed, polls api k)"
    using assms(2) by (subst await_loop.simps) (simp add: agents_failed_def)
  finally show ?thesis .
qed

lemma elapsed_grows:
  "0 \<le> elapsed 0 \<Longrightarrow> \<forall>j. elapsed j + 5 \<le> elapsed (Suc j) \<Longrightarrow> 5 * real j \<le> elapsed j"
proof (induction j)
  case 0
  then show ?case by simp
next
  case (Suc j)
  then have "5 * real j \<le> elapsed j" by simp
  moreover have "elapsed j + 5 \<le> elapsed (Suc j)" using Suc.prems by simp
  ultimately show ?case by simp
qed

lemma await_loop_returns:
  assumes "0 \<le> elapsed 0" and "\<forall>j. elapsed j + 5 \<le> elapsed (Suc j)"
  shows "\<exists>k\<le>60. await_loop elapsed inventory api instances 0 []
                    = Some (Inr (), polls api k @ [GetAllHosts api]) \<or>
                  await_loop elapsed inventory api instances 0 []
                    = Some (Inl agents_failed, polls api k)"
proof -
  define stop where "stop j \<longleftrightarrow> 300 \<le> elapsed j \<or> registered instances (inventory j)" for j
  have "5 * real 60 \<le> elapsed 60" using assms by (rule elapsed_grows)
  then have s60: "stop 60" by (simp add: stop_def)
  define k where "k = (LEAST j. stop j)"
  have sk: "stop k" unfolding k_def using s60 by (rule LeastI)
  have k60: "k \<le> 60" unfolding k_def using s60 by (rule Least_le)
  have before: "\<forall>j<k. elapsed j < 300 \<and> \<not> registered instances (inventory j)"
  proof (intro allI impI)
    fix j assume "j < k"
    then have "\<not> stop j" unfolding k_def by (rule not_less_Least)
    then show "elapsed j < 300 \<and> \<not> registered instances (inventory j)"
      by (simp add: stop_def not_le)
  qed
  show ?thesis
  proof (cases "300 \<le> elapsed k")
    case True
    then show ?thesis using await_loop_timeout [OF before] k60 by blast
  next
    case False
    then have "elapsed k < 300" "registered instances (inventory k)"
      using sk by (auto simp: stop_def)
    then show ?thesis using await_loop_success [OF before] k60 by blast
  qed
qed

text \<open>
  C8. For a non-empty list of instances: if the first \<open>k\<close> rounds start before 300
  seconds have elapsed and find an instance missing, and round \<open>k\<close> starts before 300
  seconds and finds every instance registered, \<open>await_agents\<close> returns normally right
  after that fetch, having slept five seconds after each earlier fetch; if instead 300
  seconds or more have elapsed when round \<open>k\<close> would start, it raises the "agents failed
  to connect" provisioning error without another fetch. When each round takes at least
  the five seconds of its sleep, one of the two happens within 60 rounds.
\<close>

theorem await_agents_outcomes:
  assumes "instances \<noteq> []"
  shows "(let api = get_api_client (ng_cluster (node_group (hd instances)));
              res = await_agents elapsed inventory instances
          in ((\<forall>j<k. elapsed j < 300 \<and> \<not> registered instances (inventory j)) \<and>
               elapsed k < 300 \<and> registered instances (inventory k) \<longrightarrow>
                 res = Some (Inr (), polls api k @ [GetAllHosts api])) \<and>
             ((\<forall>j<k. elapsed j < 300 \<and> \<not> registered instances (inventory j)) \<and>
               300 \<le> elapsed k \<longrightarrow>
                 res = Some (Inl agents_failed, polls api k)) \<and>
             (0 \<le> elapsed 0 \<and> (\<forall>j. elapsed j + 5 \<le> elapsed (Suc j)) \<longrightarrow>
                 (\<exists>n\<le>60. res = Some (Inr (), polls api n @ [GetAllHosts api]) \<or>
                          res = Some (Inl agents_failed, polls api n))))"
proof -
  obtain i rest where cons: "instances = i # rest"
    using assms by (cases instances) auto
  have aw: "await_agents elapsed inventory instances
              = await_loop elapsed inventory (get_api_client (ng_cluster (node_group (hd instances))))
                  instances 0 []"
    by (simp add: await_agents_def cons)
  show ?thesis
    unfolding Let_def aw
    using await_loop_success await_loop_timeout await_loop_returns by blast
qed

theorem await_agents_outcomes_witness:
  "await_agents elapsed_a inventory_late instances_a
     = Some (Inr (), polls (get_api_client cluster_a) 50 @ [GetAllHosts (get_api_client cluster_a)]) \<and>
   await_agents elapsed_a inventory_never instances_a
     = Some (Inl agents_failed, polls (get_api_client cluster_a) 60)"
proof -
  have ne: "instances_a \<noteq> []"
    by (simp add: instances_a_def)
  have api: "get_api_client (ng_cluster (node_group (hd instances_a))) = get_api_client cluster_a"
    by (simp add: instances_a_def)
  have late: "\<forall>j<50. elapsed_a j < 300 \<and> \<not> registered instances_a (inventory_late j)"
    by (simp add: elapsed_a_def inventory_late_def registered_def instances_a_def)
  have at50: "elapsed_a 50 < 300 \<and> registered instances_a (inventory_late 50)"
    by (simp add: elapsed_a_def inventory_late_def registered_def instances_a_def inventory_a_def)
  have never: "\<forall>j<60. elapsed_a j < 300 \<and> \<not> registered instances_a (inventory_never j)"
    by (simp add: elapsed_a_def inventory_never_def registered_def instances_a_def)
  have at60: "300 \<le> elapsed_a 60"
    by (simp add: elapsed_a_def)
  have a: "await_agents elapsed_a inventory_late instances_a
     = Some (Inr (), polls (get_api_client cluster_a) 50 @ [GetAllHosts (get_api_client cluster_a)])"
    using await_agents_outcomes [OF ne, where k = 50 and elapsed = elapsed_a and inventory = inventory_late] late at50
    unfolding Let_def api by blast
  have b: "await_agents elapsed_a inventory_never instances_a
     = Some (Inl agents_failed, polls (get_api_client cluster_a) 60)"
    using await_agents_outcomes [OF ne, where k = 60 and elapsed = elapsed_a and inventory = inventory_never] never at60
    unfolding Let_def api by blast
  show ?thesis using a b by simp
qed

end
